theory Spec2Isabelle
  imports Main "HOL-Library.Word"
begin

section \<open>Data model\<close>

text \<open>
  The server keeps bookings, users, services, notifications and chat messages in a
  relational store reached through Prisma, pushes events over Socket.io and hands e-mails
  to a nodemailer transporter. The store is modelled as finite maps and lists inside one
  \<open>world\<close> record; Socket.io as the list of emissions made and the set of room
  memberships; the transporter as the list of e-mails handed over. User and booking ids
  are strings (the code slices them); the ids of rows created here and their
  \<open>createdAt\<close> stamps are drawn from two counters of the world.
\<close>

type_synonym id = string

text \<open>
  The text of a chat message is a JavaScript string: a sequence of 16-bit code units.
  \<open>ascii\<close> writes an ASCII literal as such a string.
\<close>

type_synonym js_string = "16 word list"

definition ascii :: "string \<Rightarrow> js_string" where
  "ascii s = map (\<lambda>c. word_of_nat (of_char c)) s"

datatype booking_status = PENDING | ACCEPTED | DECLINED | COMPLETED | CANCELLED

datatype role = CUSTOMER | PROVIDER | ADMIN

datatype notification_type =
  BOOKING_CREATED | BOOKING_ACCEPTED | BOOKING_DECLINED | BOOKING_COMPLETED
| BOOKING_CANCELLED | MESSAGE_RECEIVED | RATING_RECEIVED

datatype email_type =
  booking_created | booking_accepted | booking_declined | booking_completed
| booking_cancelled | message_received | rating_received

record booking =
  bkId :: id
  customerId :: id
  providerId :: id
  serviceId :: id
  status :: booking_status

record user =
  fullName :: string
  email :: string
  userRole :: role

record service =
  svcTitle :: string

text \<open>
  What \<open>prisma.booking.update\<close> returns with its \<open>include\<close>: the row and the
  display fields of the related service and provider (absent relations are \<open>None\<close>).
\<close>

record booking_view =
  row :: booking
  viewServiceTitle :: "string option"
  viewProviderName :: "string option"

record notification =
  nId :: nat
  userId :: id
  ntype :: notification_type
  title :: string
  message :: string
  link :: "string option"
  bookingId :: "id option"
  messageId :: "nat option"
  read :: bool
  createdAt :: nat

record chat_message =
  mId :: nat
  msgBookingId :: id
  body :: js_string
  senderId :: id
  msgCreatedAt :: nat

record mail =
  rcpt :: string
  mailType :: email_type
  mailUserName :: string
  mailTitle :: string
  mailMessage :: string

record socket =
  sockId :: nat
  dataUserId :: id

datatype payload =
  ErrorPayload string
| MessagePayload chat_message "string option"
| NotificationPayload notification

datatype target = ToSocket nat | ToRoom string

datatype emission = Emit target string payload

record world =
  bookings :: "id \<rightharpoonup> booking"
  users :: "id \<rightharpoonup> user"
  services :: "id \<rightharpoonup> service"
  notifications :: "notification list"
  messages :: "chat_message list"
  emitted :: "emission list"
  rooms :: "(nat \<times> string) set"
  outbox :: "mail list"
  nextId :: nat
  clock :: nat

text \<open>
  The calls that leave the process and may throw. \<open>fails env op\<close> says that the call
  throws in this run, with the given error message; the code's \<open>try\<close>/\<open>catch\<close>
  blocks decide what becomes of it.
\<close>

datatype ext_op =
  BookingFindUnique | BookingUpdate | MessageCreate | NotificationCreate
| NotificationFindMany | UserFindEmail | UserFindName | SendMail

record env =
  EMAIL_ENABLED :: bool
  transporter :: bool
  io :: bool
  fails :: "ext_op \<Rightarrow> string option"

datatype 'a outcome = Returned 'a | Threw string

section \<open>HTTP errors (middleware/errorHandler)\<close>

datatype api_error = ApiError string "nat option"

datatype http_response =
  JsonBooking booking_view
| JsonNotifications "notification list"
| Failure nat string

definition errorHandler :: "api_error \<Rightarrow> http_response" where
  "errorHandler err =
     (case err of ApiError msg st \<Rightarrow>
        Failure (case st of None \<Rightarrow> 500 | Some c \<Rightarrow> c) msg)"

section \<open>lib/email\<close>

definition getUserEmail :: "env \<Rightarrow> world \<Rightarrow> id \<Rightarrow> string option" where
  "getUserEmail e w uid =
     (case fails e UserFindEmail of
        Some err \<Rightarrow> None
      | None \<Rightarrow>
          (case users w uid of
             None \<Rightarrow> None
           | Some u \<Rightarrow> if email u = [] then None else Some (email u)))"

definition sendEmail :: "env \<Rightarrow> world \<Rightarrow> mail \<Rightarrow> bool \<times> world" where
  "sendEmail e w options =
     (if \<not> transporter e \<or> \<not> EMAIL_ENABLED e then (False, w)
      else (case fails e SendMail of
              Some err \<Rightarrow> (False, w)
            | None \<Rightarrow> (True, w\<lparr>outbox := outbox w @ [options]\<rparr>)))"

definition sendEmailNotification ::
  "env \<Rightarrow> world \<Rightarrow> id \<Rightarrow> email_type \<Rightarrow> string \<Rightarrow> string \<Rightarrow> unit outcome \<times> world" where
  "sendEmailNotification e w uid ty ttl msg =
     (if \<not> EMAIL_ENABLED e \<or> \<not> transporter e then (Returned (), w)
      else (case getUserEmail e w uid of
              None \<Rightarrow> (Returned (), w)
            | Some userEmail \<Rightarrow>
                (case fails e UserFindName of
                   Some err \<Rightarrow> (Returned (), w)
                 | None \<Rightarrow>
                     (let userName =
                            (case users w uid of
                               None \<Rightarrow> ''User''
                             | Some u \<Rightarrow> if fullName u = [] then ''User'' else fullName u);
                          sent = sendEmail e w
                            \<lparr>rcpt = userEmail, mailType = ty, mailUserName = userName,
                             mailTitle = ttl, mailMessage = msg\<rparr>
                      in (Returned (), snd sent)))))"

section \<open>lib/notifications\<close>

record CreateNotificationParams =
  p_userId :: id
  p_type :: notification_type
  p_title :: string
  p_message :: string
  p_link :: "string option"
  p_bookingId :: "id option"
  p_messageId :: "nat option"

definition emit :: "target \<Rightarrow> string \<Rightarrow> payload \<Rightarrow> world \<Rightarrow> world" where
  "emit t ev p w = w\<lparr>emitted := emitted w @ [Emit t ev p]\<rparr>"

definition createNotification ::
  "env \<Rightarrow> world \<Rightarrow> CreateNotificationParams \<Rightarrow> notification outcome \<times> world" where
  "createNotification e w params =
     (case fails e NotificationCreate of
        Some err \<Rightarrow> (Threw err, w)
      | None \<Rightarrow>
          (let n = \<lparr>nId = nextId w, userId = p_userId params, ntype = p_type params,
                    title = p_title params, message = p_message params,
                    link = p_link params, bookingId = p_bookingId params,
                    messageId = p_messageId params, read = False, createdAt = clock w\<rparr>;
               w1 = w\<lparr>notifications := notifications w @ [n],
                      nextId := Suc (nextId w), clock := Suc (clock w)\<rparr>;
               w2 = (if io e
                     then emit (ToRoom (''user_'' @ p_userId params)) ''new_notification''
                            (NotificationPayload n) w1
                     else w1)
           in (Returned n, w2)))"

text \<open>JavaScript's \<open>x?.f || d\<close>: the default for an absent or empty string.\<close>

definition or_default :: "string option \<Rightarrow> string \<Rightarrow> string" where
  "or_default v d = (case v of None \<Rightarrow> d | Some s \<Rightarrow> if s = [] then d else s)"

text \<open>
  The table \<open>statusMessages\<close> with the notification type \<open>BOOKING_<status>\<close> that the
  code builds right after the lookup; \<open>PENDING\<close> has no entry.
\<close>

definition statusMessages ::
  "booking_view \<Rightarrow> booking_status \<Rightarrow> (string \<times> string \<times> email_type \<times> notification_type) option"
  where
  "statusMessages b st =
     (case st of
        ACCEPTED \<Rightarrow> Some (''Booking Accepted'',
          or_default (viewProviderName b) ''Provider'' @ '' accepted your booking request for ''
            @ or_default (viewServiceTitle b) ''service'',
          booking_accepted, BOOKING_ACCEPTED)
      | DECLINED \<Rightarrow> Some (''Booking Declined'',
          or_default (viewProviderName b) ''Provider'' @ '' declined your booking request for ''
            @ or_default (viewServiceTitle b) ''service'',
          booking_declined, BOOKING_DECLINED)
      | COMPLETED \<Rightarrow> Some (''Booking Completed'',
          ''Your booking for '' @ or_default (viewServiceTitle b) ''service''
            @ '' has been marked as completed'',
          booking_completed, BOOKING_COMPLETED)
      | CANCELLED \<Rightarrow> Some (''Booking Cancelled'',
          ''Your booking for '' @ or_default (viewServiceTitle b) ''service''
            @ '' has been cancelled'',
          booking_cancelled, BOOKING_CANCELLED)
      | PENDING \<Rightarrow> None)"

definition notifyBookingStatusChange ::
  "env \<Rightarrow> world \<Rightarrow> booking_view \<Rightarrow> booking_status \<Rightarrow> unit outcome \<times> world" where
  "notifyBookingStatusChange e w b st =
     (case statusMessages b st of
        None \<Rightarrow> (Returned (), w)
      | Some (ttl, msg, emailType, notificationType) \<Rightarrow>
          (case createNotification e w
                  \<lparr>p_userId = customerId (row b), p_type = notificationType,
                   p_title = ttl, p_message = msg, p_link = Some ''/bookings'',
                   p_bookingId = Some (bkId (row b)), p_messageId = None\<rparr> of
             (Threw err, w1) \<Rightarrow> (Threw err, w1)
           | (Returned n, w1) \<Rightarrow>
               (Returned (),
                snd (sendEmailNotification e w1 (customerId (row b)) emailType ttl msg))))"

definition notifyMessageReceived ::
  "env \<Rightarrow> world \<Rightarrow> chat_message \<Rightarrow> id \<Rightarrow> notification outcome \<times> world" where
  "notifyMessageReceived e w m recipientId =
     (let msg = ''You have a new message in booking #'' @ take 8 (msgBookingId m) in
      case createNotification e w
             \<lparr>p_userId = recipientId, p_type = MESSAGE_RECEIVED,
              p_title = ''New Message'', p_message = msg, p_link = Some ''/bookings'',
              p_bookingId = Some (msgBookingId m), p_messageId = Some (mId m)\<rparr> of
        (Threw err, w1) \<Rightarrow> (Threw err, w1)
      | (Returned n, w1) \<Rightarrow>
          (Returned n,
           snd (sendEmailNotification e w1 recipientId message_received ''New Message'' msg)))"

section \<open>routes/bookings: PATCH /:id/status\<close>

text \<open>
  The handler, in the order of the source: the body is parsed against the schema, the
  booking is loaded, the two permission checks and the transition checks run, the row is
  updated and returned with its relations, and the notification is awaited with its
  failure caught and logged. A thrown error reaches \<open>errorHandler\<close> through
  \<open>next\<close>. The request's \<open>status\<close> field arrives as a string.
\<close>

definition statusSchema_parse :: "string \<Rightarrow> booking_status option" where
  "statusSchema_parse s =
     (if s = ''ACCEPTED'' then Some ACCEPTED
      else if s = ''DECLINED'' then Some DECLINED
      else if s = ''CANCELLED'' then Some CANCELLED
      else if s = ''COMPLETED'' then Some COMPLETED
      else None)"

definition include_relations :: "world \<Rightarrow> booking \<Rightarrow> booking_view" where
  "include_relations w b =
     \<lparr>row = b,
      viewServiceTitle = map_option svcTitle (services w (serviceId b)),
      viewProviderName = map_option fullName (users w (providerId b))\<rparr>"

definition patch_status ::
  "env \<Rightarrow> world \<Rightarrow> id \<Rightarrow> id \<Rightarrow> role \<Rightarrow> string \<Rightarrow> http_response \<times> world" where
  "patch_status e w bid uid urole reqStatus =
     (case statusSchema_parse reqStatus of
        None \<Rightarrow> (errorHandler (ApiError ''Validation error'' (Some 400)), w)
      | Some st \<Rightarrow>
     (if bid = [] then (errorHandler (ApiError ''Booking ID is required'' (Some 400)), w)
      else
     (case fails e BookingFindUnique of
        Some err \<Rightarrow> (errorHandler (ApiError err None), w)
      | None \<Rightarrow>
     (case bookings w bid of
        None \<Rightarrow> (errorHandler (ApiError ''Booking not found'' (Some 404)), w)
      | Some b \<Rightarrow>
     (if urole = PROVIDER \<and> providerId b \<noteq> uid
        then (errorHandler (ApiError ''Access denied'' (Some 403)), w)
      else if urole = CUSTOMER \<and> customerId b \<noteq> uid
        then (errorHandler (ApiError ''Access denied'' (Some 403)), w)
      else if urole = PROVIDER \<and> st = COMPLETED \<and> status b \<noteq> ACCEPTED
        then (errorHandler (ApiError ''Can only complete accepted bookings'' (Some 400)), w)
      else if urole = PROVIDER \<and> st \<in> set [ACCEPTED, DECLINED] \<and> status b \<noteq> PENDING
        then (errorHandler
                (ApiError ''Can only accept or decline pending bookings'' (Some 400)), w)
      else if urole = PROVIDER \<and> st \<notin> set [ACCEPTED, DECLINED, COMPLETED]
        then (errorHandler (ApiError ''Invalid status for provider'' (Some 400)), w)
      else if urole = CUSTOMER \<and> st \<noteq> CANCELLED \<and> status b \<noteq> PENDING
        then (errorHandler (ApiError ''Can only cancel pending bookings'' (Some 400)), w)
      else
     (case fails e BookingUpdate of
        Some err \<Rightarrow> (errorHandler (ApiError err None), w)
      | None \<Rightarrow>
          (let b' = b\<lparr>status := st\<rparr>;
               w1 = w\<lparr>bookings := (bookings w)(bid \<mapsto> b')\<rparr>;
               updated = include_relations w1 b'
           in (JsonBooking updated,
               snd (notifyBookingStatusChange e w1 updated st)))))))))"

section \<open>routes/notifications: GET /\<close>

text \<open>
  \<open>prisma.notification.findMany\<close> with \<open>where\<close>, \<open>orderBy: {createdAt: "desc"}\<close>
  and \<open>take: 50\<close>: the matching rows, newest first, the first fifty. Among rows with
  the same stamp the store fixes no order; the model takes one.
\<close>

definition findMany_notifications ::
  "world \<Rightarrow> id \<Rightarrow> bool \<Rightarrow> notification list" where
  "findMany_notifications w uid unread =
     take 50 (rev (sort_key createdAt
       (filter (\<lambda>n. userId n = uid \<and> (if unread then read n = False else True))
          (notifications w))))"

definition get_notifications ::
  "env \<Rightarrow> world \<Rightarrow> id \<Rightarrow> string option \<Rightarrow> http_response" where
  "get_notifications e w uid unreadOnly =
     (case fails e NotificationFindMany of
        Some err \<Rightarrow> errorHandler (ApiError err None)
      | None \<Rightarrow> JsonNotifications (findMany_notifications w uid (unreadOnly = Some ''true'')))"

section \<open>lib/socket\<close>

text \<open>
  \<open>String.prototype.trim\<close>: the white space and the line terminators of ECMAScript
  are cut from both ends. These are the code points U+0009 to U+000D, U+0020, U+00A0,
  U+1680, U+2000 to U+200A, U+2028, U+2029, U+202F, U+205F, U+3000 and U+FEFF; each is
  one code unit, and no surrogate is among them.
\<close>

definition is_space :: "16 word \<Rightarrow> bool" where
  "is_space c =
     (c \<in> set [0x0009, 0x000A, 0x000B, 0x000C, 0x000D, 0x0020, 0x00A0, 0x1680,
                0x2028, 0x2029, 0x202F, 0x205F, 0x3000, 0xFEFF]
      \<or> (0x2000 \<le> c \<and> c \<le> 0x200A))"

definition trim :: "js_string \<Rightarrow> js_string" where
  "trim s = rev (dropWhile is_space (rev (dropWhile is_space s)))"

text \<open>
  The two socket handlers. Each runs inside \<open>try\<close>/\<open>catch\<close>: join_booking only logs
  an error, send_message answers it with the event \<open>error\<close> and the text
  \<open>Failed to send message\<close>. The notification that follows a message is not awaited
  and its failure is caught and logged.
\<close>

definition join_booking :: "env \<Rightarrow> world \<Rightarrow> socket \<Rightarrow> id \<Rightarrow> world" where
  "join_booking e w sock bid =
     (case fails e BookingFindUnique of
        Some err \<Rightarrow> w
      | None \<Rightarrow>
          (case bookings w bid of
             None \<Rightarrow> w
           | Some b \<Rightarrow>
               if customerId b = dataUserId sock \<or> providerId b = dataUserId sock
               then w\<lparr>rooms := insert (sockId sock, ''booking:'' @ bid) (rooms w)\<rparr>
               else w))"

definition socket_error :: "socket \<Rightarrow> string \<Rightarrow> world \<Rightarrow> world" where
  "socket_error sock msg w = emit (ToSocket (sockId sock)) ''error'' (ErrorPayload msg) w"

definition send_message :: "env \<Rightarrow> world \<Rightarrow> socket \<Rightarrow> id \<Rightarrow> js_string \<Rightarrow> world" where
  "send_message e w sock bid bdy =
     (let sender = dataUserId sock in
     (case fails e BookingFindUnique of
        Some err \<Rightarrow> socket_error sock ''Failed to send message'' w
      | None \<Rightarrow>
     (case bookings w bid of
        None \<Rightarrow> socket_error sock ''Booking not found'' w
      | Some b \<Rightarrow>
     (if customerId b \<noteq> sender \<and> providerId b \<noteq> sender
        then socket_error sock ''Access denied'' w
      else
     (case fails e MessageCreate of
        Some err \<Rightarrow> socket_error sock ''Failed to send message'' w
      | None \<Rightarrow>
          (let m = \<lparr>mId = nextId w, msgBookingId = bid, body = trim bdy,
                    senderId = sender, msgCreatedAt = clock w\<rparr>;
               w1 = w\<lparr>messages := messages w @ [m],
                      nextId := Suc (nextId w), clock := Suc (clock w)\<rparr>
           in (if \<not> io e then socket_error sock ''Failed to send message'' w1
               else
                 (let w2 = emit (ToRoom (''booking:'' @ bid)) ''new_message''
                             (MessagePayload m (map_option fullName (users w1 sender))) w1;
                      recipientId =
                        (if customerId b = sender then providerId b else customerId b)
                  in snd (notifyMessageReceived e w2 m recipientId)))))))))"

section \<open>A small deployment used in the examples\<close>

definition ex_booking :: "booking_status \<Rightarrow> booking" where
  "ex_booking st =
     \<lparr>bkId = ''b1'', customerId = ''alice'', providerId = ''bob'', serviceId = ''s1'',
      status = st\<rparr>"

definition ex_users :: "id \<rightharpoonup> user" where
  "ex_users =
     [''alice'' \<mapsto> \<lparr>fullName = ''Alice'', email = ''alice@example.org'', userRole = CUSTOMER\<rparr>,
      ''bob'' \<mapsto> \<lparr>fullName = ''Bob'', email = ''bob@example.org'', userRole = PROVIDER\<rparr>,
      ''carol'' \<mapsto> \<lparr>fullName = ''Carol'', email = ''carol@example.org'', userRole = CUSTOMER\<rparr>,
      ''root'' \<mapsto> \<lparr>fullName = ''Root'', email = ''root@example.org'', userRole = ADMIN\<rparr>]"

definition ex_world :: "booking_status \<Rightarrow> world" where
  "ex_world st =
     \<lparr>bookings = [''b1'' \<mapsto> ex_booking st], users = ex_users,
      services = [''s1'' \<mapsto> \<lparr>svcTitle = ''Plumbing''\<rparr>],
      notifications = [], messages = [], emitted = [], rooms = {}, outbox = [],
      nextId = 0, clock = 0\<rparr>"

definition ex_env :: env where
  "ex_env = \<lparr>EMAIL_ENABLED = False, transporter = False, io = True, fails = (\<lambda>op. None)\<rparr>"

definition ex_view :: "booking_status \<Rightarrow> booking_view" where
  "ex_view st =
     \<lparr>row = ex_booking st, viewServiceTitle = Some ''Plumbing'',
      viewProviderName = Some ''Bob''\<rparr>"

text \<open>
  Two message bodies: \<open>on my way\<close> between a no-break space, a space, an ideographic
  space and a line feed; and a body of a space, a no-break space and a tab.
\<close>

definition ex_body :: js_string where
  "ex_body = [0x00A0, 0x0020] @ ascii ''on my way'' @ [0x3000, 0x000A]"

definition ex_blank_body :: js_string where
  "ex_blank_body = [0x0020, 0x00A0, 0x0009]"

definition ex_socket :: "id \<Rightarrow> socket" where
  "ex_socket uid = \<lparr>sockId = 7, dataUserId = uid\<rparr>"

text \<open>
  The same run under another e-mail set-up: the switch, the transporter and the outcome
  of the three calls made only by the e-mail step are replaced; everything else is kept.
\<close>

definition with_email_setup ::
  "env \<Rightarrow> bool \<Rightarrow> bool \<Rightarrow> (ext_op \<Rightarrow> string option) \<Rightarrow> env" where
  "with_email_setup e en tr f =
     e\<lparr>EMAIL_ENABLED := en, transporter := tr,
       fails := (\<lambda>op. if op \<in> set [UserFindEmail, UserFindName, SendMail]
                       then f op else fails e op)\<rparr>"

definition ex_smtp_down :: "ext_op \<Rightarrow> string option" where
  "ex_smtp_down op = (if op = SendMail then Some ''connection refused'' else None)"

definition ex_notifications :: "notification list" where
  "ex_notifications =
     [\<lparr>nId = 1, userId = ''alice'', ntype = BOOKING_ACCEPTED, title = ''Booking Accepted'',
       message = ''Bob accepted your booking request for Plumbing'',
       link = Some ''/bookings'', bookingId = Some ''b1'', messageId = None,
       read = True, createdAt = 10\<rparr>,
      \<lparr>nId = 2, userId = ''bob'', ntype = MESSAGE_RECEIVED, title = ''New Message'',
       message = ''You have a new message in booking #b1'',
       link = Some ''/bookings'', bookingId = Some ''b1'', messageId = Some 5,
       read = False, createdAt = 20\<rparr>,
      \<lparr>nId = 3, userId = ''alice'', ntype = MESSAGE_RECEIVED, title = ''New Message'',
       message = ''You have a new message in booking #b1'',
       link = Some ''/bookings'', bookingId = Some ''b1'', messageId = Some 6,
       read = False, createdAt = 30\<rparr>]"

section \<open>What the notification path leaves alone\<close>

lemma sendEmail_frame:
  "bookings (snd (sendEmail e w m)) = bookings w \<and>
   notifications (snd (sendEmail e w m)) = notifications w \<and>
   messages (snd (sendEmail e w m)) = messages w \<and>
   emitted (snd (sendEmail e w m)) = emitted w \<and>
   rooms (snd (sendEmail e w m)) = rooms w"
  unfolding sendEmail_def by (simp split: option.splits)

lemma sendEmailNotification_returns:
  "fst (sendEmailNotification e w uid ty ttl msg) = Returned ()"
  unfolding sendEmailNotification_def
  by (simp add: Let_def split: option.splits)

lemma sendEmailNotification_frame:
  "bookings (snd (sendEmailNotification e w uid ty ttl msg)) = bookings w \<and>
   notifications (snd (sendEmailNotification e w uid ty ttl msg)) = notifications w \<and>
   messages (snd (sendEmailNotification e w uid ty ttl msg)) = messages w \<and>
   emitted (snd (sendEmailNotification e w uid ty ttl msg)) = emitted w \<and>
   rooms (snd (sendEmailNotification e w uid ty ttl msg)) = rooms w"
  unfolding sendEmailNotification_def
  by (simp add: Let_def sendEmail_frame split: option.splits)

lemma sendEmailNotification_bookings [simp]:
  "bookings (snd (sendEmailNotification e w uid ty ttl msg)) = bookings w"
  by (simp add: sendEmailNotification_frame)

lemma sendEmailNotification_notifications [simp]:
  "notifications (snd (sendEmailNotification e w uid ty ttl msg)) = notifications w"
  by (simp add: sendEmailNotification_frame)

lemma sendEmailNotification_messages [simp]:
  "messages (snd (sendEmailNotification e w uid ty ttl msg)) = messages w"
  by (simp add: sendEmailNotification_frame)

lemma sendEmailNotification_emitted [simp]:
  "emitted (snd (sendEmailNotification e w uid ty ttl msg)) = emitted w"
  by (simp add: sendEmailNotification_frame)

lemma createNotification_bookings [simp]:
  "bookings (snd (createNotification e w p)) = bookings w"
  unfolding createNotification_def emit_def
  by (simp add: Let_def split: option.splits)

lemma createNotification_messages [simp]:
  "messages (snd (createNotification e w p)) = messages w"
  unfolding createNotification_def emit_def
  by (simp add: Let_def split: option.splits)

lemma notifyBookingStatusChange_bookings [simp]:
  "bookings (snd (notifyBookingStatusChange e w v st)) = bookings w"
proof (cases "statusMessages v st")
  case None
  then show ?thesis unfolding notifyBookingStatusChange_def by simp
next
  case (Some info)
  obtain ttl msg et nt where info: "info = (ttl, msg, et, nt)"
    by (cases info) auto
  let ?p = "\<lparr>p_userId = customerId (row v), p_type = nt, p_title = ttl, p_message = msg,
             p_link = Some ''/bookings'', p_bookingId = Some (bkId (row v)),
             p_messageId = None\<rparr>"
  obtain r w1 where cn: "createNotification e w ?p = (r, w1)"
    by (cases "createNotification e w ?p") auto
  have "bookings w1 = bookings w"
    using createNotification_bookings [of e w ?p] cn by simp
  then show ?thesis
    unfolding notifyBookingStatusChange_def
    using Some info cn by (cases r) simp_all
qed

section \<open>The status endpoint\<close>

subsection \<open>C1: from PENDING to COMPLETED\<close>

text \<open>
  C1 as stated fails: an actor whose role is ADMIN passes every check of the handler,
  which guards only the roles PROVIDER and CUSTOMER. Here the administrator \<open>root\<close>
  moves the PENDING booking \<open>b1\<close> straight to COMPLETED, and the stored status is
  COMPLETED afterwards.
\<close>

theorem admin_completes_pending_booking:
  "status (ex_booking PENDING) = PENDING
   \<and> bookings (ex_world PENDING) ''b1'' = Some (ex_booking PENDING)
   \<and> fst (patch_status ex_env (ex_world PENDING) ''b1'' ''root'' ADMIN ''COMPLETED'')
       = JsonBooking (ex_view COMPLETED)
   \<and> bookings (snd (patch_status ex_env (ex_world PENDING) ''b1'' ''root'' ADMIN ''COMPLETED''))
        ''b1'' = Some (ex_booking COMPLETED)"
  by (simp add: patch_status_def statusSchema_parse_def ex_world_def ex_booking_def
      ex_env_def ex_view_def ex_users_def include_relations_def Let_def)

text \<open>
  C1, amended: for every booking that is PENDING, a request with target COMPLETED from an
  actor whose role is PROVIDER (the booking's provider or not), or from an actor whose role
  is CUSTOMER and who is not the booking's customer, is rejected with status 400, 403 or
  500, and the world, hence the stored status, is unchanged.
\<close>

theorem pending_to_completed_rejected:
  assumes "bookings w bid = Some b" and "status b = PENDING"
    and "urole = PROVIDER \<or> (urole = CUSTOMER \<and> customerId b \<noteq> uid)"
  shows "\<exists>code msg. patch_status e w bid uid urole ''COMPLETED'' = (Failure code msg, w)
           \<and> code \<in> {400, 403, 500}"
  using assms unfolding patch_status_def statusSchema_parse_def errorHandler_def
  by (auto split: option.splits)

text \<open>The amended C1 at the booking \<open>b1\<close>, with its provider \<open>bob\<close> asking.\<close>

theorem pending_to_completed_rejected_witness:
  "bookings (ex_world PENDING) ''b1'' = Some (ex_booking PENDING)
   \<and> status (ex_booking PENDING) = PENDING
   \<and> (\<exists>code msg. patch_status ex_env (ex_world PENDING) ''b1'' ''bob'' PROVIDER ''COMPLETED''
          = (Failure code msg, ex_world PENDING) \<and> code \<in> {400, 403, 500})"
  using pending_to_completed_rejected
          [of "ex_world PENDING" "''b1''" "ex_booking PENDING" PROVIDER "''bob''" ex_env]
  by (simp add: ex_world_def ex_booking_def)

subsection \<open>C2: a customer cancels only PENDING bookings\<close>

text \<open>
  C2 at a failing input: the guard for customers reads
  \<open>role = CUSTOMER \<and> status \<noteq> CANCELLED \<and> booking.status \<noteq> PENDING\<close>, so a target
  CANCELLED never meets it. The customer \<open>alice\<close> cancels her ACCEPTED booking, and
  her COMPLETED booking as well: the response is the updated booking and the stored
  status is CANCELLED, where the claim asks for a rejection.
\<close>

theorem customer_cancels_accepted_booking:
  "customerId (ex_booking ACCEPTED) = ''alice''
   \<and> bookings (ex_world ACCEPTED) ''b1'' = Some (ex_booking ACCEPTED)
   \<and> fst (patch_status ex_env (ex_world ACCEPTED) ''b1'' ''alice'' CUSTOMER ''CANCELLED'')
       = JsonBooking (ex_view CANCELLED)
   \<and> bookings (snd (patch_status ex_env (ex_world ACCEPTED) ''b1'' ''alice'' CUSTOMER ''CANCELLED''))
        ''b1'' = Some (ex_booking CANCELLED)
   \<and> fst (patch_status ex_env (ex_world COMPLETED) ''b1'' ''alice'' CUSTOMER ''CANCELLED'')
       = JsonBooking (ex_view CANCELLED)"
  by (simp add: patch_status_def statusSchema_parse_def ex_world_def ex_booking_def
      ex_env_def ex_view_def ex_users_def include_relations_def Let_def)

subsection \<open>C3: actors who are no party to the booking\<close>

text \<open>
  C3 as stated fails for the third role: \<open>root\<close>, with role ADMIN, is neither the
  customer nor the provider of \<open>b1\<close>, yet the request to accept it is applied.
\<close>

theorem admin_outsider_accepts_booking:
  "customerId (ex_booking PENDING) \<noteq> ''root'' \<and> providerId (ex_booking PENDING) \<noteq> ''root''
   \<and> bookings (ex_world PENDING) ''b1'' = Some (ex_booking PENDING)
   \<and> fst (patch_status ex_env (ex_world PENDING) ''b1'' ''root'' ADMIN ''ACCEPTED'')
       = JsonBooking (ex_view ACCEPTED)
   \<and> bookings (snd (patch_status ex_env (ex_world PENDING) ''b1'' ''root'' ADMIN ''ACCEPTED''))
        ''b1'' = Some (ex_booking ACCEPTED)"
  by (simp add: patch_status_def statusSchema_parse_def ex_world_def ex_booking_def
      ex_env_def ex_view_def ex_users_def include_relations_def Let_def)

text \<open>
  C3, amended: for every booking and every actor with role CUSTOMER or PROVIDER who is
  neither its customer nor its provider, a well-formed transition request (a target the
  schema accepts, a booking id, a store that answers the lookup) returns 403
  \<open>Access denied\<close> and leaves the world unchanged.
\<close>

theorem outsider_is_forbidden:
  assumes "bookings w bid = Some b"
    and "customerId b \<noteq> uid" and "providerId b \<noteq> uid"
    and "urole = CUSTOMER \<or> urole = PROVIDER"
    and "statusSchema_parse s = Some st" and "bid \<noteq> []"
    and "fails e BookingFindUnique = None"
  shows "patch_status e w bid uid urole s = (Failure 403 ''Access denied'', w)"
  using assms unfolding patch_status_def errorHandler_def
  by auto

text \<open>The amended C3 for \<open>carol\<close>, a customer who does not own \<open>b1\<close>.\<close>

theorem outsider_is_forbidden_witness:
  "bookings (ex_world ACCEPTED) ''b1'' = Some (ex_booking ACCEPTED)
   \<and> customerId (ex_booking ACCEPTED) \<noteq> ''carol'' \<and> providerId (ex_booking ACCEPTED) \<noteq> ''carol''
   \<and> statusSchema_parse ''CANCELLED'' = Some CANCELLED
   \<and> fails ex_env BookingFindUnique = None
   \<and> patch_status ex_env (ex_world ACCEPTED) ''b1'' ''carol'' CUSTOMER ''CANCELLED''
       = (Failure 403 ''Access denied'', ex_world ACCEPTED)"
  using outsider_is_forbidden
          [of "ex_world ACCEPTED" "''b1''" "ex_booking ACCEPTED" "''carol''" CUSTOMER
              "''CANCELLED''" CANCELLED ex_env]
  by (simp add: ex_world_def ex_booking_def ex_env_def statusSchema_parse_def)

subsection \<open>C8: a repeated ACCEPTED call\<close>

text \<open>
  C8: on a PENDING booking the provider's ACCEPTED call succeeds, returning the booking
  with status ACCEPTED and storing it; the same call repeated at once on the resulting
  world fails with 400 \<open>Can only accept or decline pending bookings\<close> and changes
  nothing. The store is assumed to answer the lookup and the update.
\<close>

theorem repeated_accept_is_rejected:
  assumes "bookings w bid = Some b" and "status b = PENDING" and "providerId b = uid"
    and "bid \<noteq> []"
    and "fails e BookingFindUnique = None" and "fails e BookingUpdate = None"
  shows "\<exists>v w1. patch_status e w bid uid PROVIDER ''ACCEPTED'' = (JsonBooking v, w1)
           \<and> row v = b\<lparr>status := ACCEPTED\<rparr>
           \<and> bookings w1 bid = Some (b\<lparr>status := ACCEPTED\<rparr>)
           \<and> patch_status e w1 bid uid PROVIDER ''ACCEPTED''
               = (Failure 400 ''Can only accept or decline pending bookings'', w1)"
proof -
  let ?b' = "b\<lparr>status := ACCEPTED\<rparr>"
  let ?w0 = "w\<lparr>bookings := (bookings w)(bid \<mapsto> ?b')\<rparr>"
  let ?v = "include_relations ?w0 ?b'"
  let ?w1 = "snd (notifyBookingStatusChange e ?w0 ?v ACCEPTED)"
  have first: "patch_status e w bid uid PROVIDER ''ACCEPTED'' = (JsonBooking ?v, ?w1)"
    using assms unfolding patch_status_def statusSchema_parse_def
    by (simp add: Let_def)
  have stored: "bookings ?w1 bid = Some ?b'"
    by simp
  have second: "patch_status e ?w1 bid uid PROVIDER ''ACCEPTED''
      = (Failure 400 ''Can only accept or decline pending bookings'', ?w1)"
    using assms(3-5) stored unfolding patch_status_def statusSchema_parse_def errorHandler_def
    by (simp add: Let_def)
  have "row ?v = ?b'" by (simp add: include_relations_def)
  with first stored second show ?thesis by blast
qed

text \<open>C8 at the booking \<open>b1\<close> and its provider \<open>bob\<close>.\<close>

theorem repeated_accept_is_rejected_witness:
  "bookings (ex_world PENDING) ''b1'' = Some (ex_booking PENDING)
   \<and> status (ex_booking PENDING) = PENDING \<and> providerId (ex_booking PENDING) = ''bob''
   \<and> fails ex_env BookingFindUnique = None \<and> fails ex_env BookingUpdate = None
   \<and> (\<exists>v w1. patch_status ex_env (ex_world PENDING) ''b1'' ''bob'' PROVIDER ''ACCEPTED''
                 = (JsonBooking v, w1)
           \<and> row v = ex_booking ACCEPTED
           \<and> bookings w1 ''b1'' = Some (ex_booking ACCEPTED)
           \<and> patch_status ex_env w1 ''b1'' ''bob'' PROVIDER ''ACCEPTED''
               = (Failure 400 ''Can only accept or decline pending bookings'', w1))"
  using repeated_accept_is_rejected
          [of "ex_world PENDING" "''b1''" "ex_booking PENDING" "''bob''" ex_env]
  by (simp add: ex_world_def ex_booking_def ex_env_def)

section \<open>The event that follows a transition\<close>

lemma createNotification_result:
  assumes "fails e NotificationCreate = None"
  shows "\<exists>n. createNotification e w p
           = (Returned n,
              w\<lparr>notifications := notifications w @ [n],
                nextId := Suc (nextId w), clock := Suc (clock w),
                emitted := emitted w @
                  (if io e
                   then [Emit (ToRoom (''user_'' @ p_userId p)) ''new_notification''
                           (NotificationPayload n)]
                   else [])\<rparr>)
         \<and> userId n = p_userId p \<and> ntype n = p_type p \<and> bookingId n = p_bookingId p
         \<and> messageId n = p_messageId p \<and> read n = False"
  using assms unfolding createNotification_def emit_def
  by (simp add: Let_def)

lemma statusSchema_parse_not_PENDING: "statusSchema_parse s \<noteq> Some PENDING"
  unfolding statusSchema_parse_def by simp

lemma statusMessages_defined:
  "st \<noteq> PENDING \<Longrightarrow> \<exists>ttl msg et nt. statusMessages v st = Some (ttl, msg, et, nt)"
  unfolding statusMessages_def by (cases st) simp_all

lemma notifyBookingStatusChange_result:
  assumes "fails e NotificationCreate = None" and "st \<noteq> PENDING"
  shows "\<exists>n. notifications (snd (notifyBookingStatusChange e w v st)) = notifications w @ [n]
           \<and> emitted (snd (notifyBookingStatusChange e w v st)) = emitted w @
                (if io e
                 then [Emit (ToRoom (''user_'' @ customerId (row v))) ''new_notification''
                         (NotificationPayload n)]
                 else [])
           \<and> userId n = customerId (row v) \<and> bookingId n = Some (bkId (row v))"
proof -
  obtain ttl msg et nt where sm: "statusMessages v st = Some (ttl, msg, et, nt)"
    using statusMessages_defined [OF assms(2)] by blast
  let ?p = "\<lparr>p_userId = customerId (row v), p_type = nt, p_title = ttl, p_message = msg,
             p_link = Some ''/bookings'', p_bookingId = Some (bkId (row v)),
             p_messageId = None\<rparr>"
  obtain n where cn: "createNotification e w ?p
           = (Returned n,
              w\<lparr>notifications := notifications w @ [n],
                nextId := Suc (nextId w), clock := Suc (clock w),
                emitted := emitted w @
                  (if io e
                   then [Emit (ToRoom (''user_'' @ p_userId ?p)) ''new_notification''
                           (NotificationPayload n)]
                   else [])\<rparr>)"
    and n: "userId n = p_userId ?p" "bookingId n = p_bookingId ?p"
    using createNotification_result [OF assms(1), of w ?p] by blast
  show ?thesis
    unfolding notifyBookingStatusChange_def
    using sm cn n by (intro exI [of _ n]) simp
qed

subsection \<open>C4: whom the event is addressed to\<close>

text \<open>
  C4 as stated fails when the customer acts: \<open>notifyBookingStatusChange\<close> addresses
  every event to \<open>booking.customerId\<close>. The customer \<open>alice\<close> cancels her PENDING
  booking, a legal move, and the one notification written is addressed to \<open>alice\<close>
  herself, not to the provider \<open>bob\<close>.
\<close>

theorem customer_cancel_notifies_customer:
  "fst (patch_status ex_env (ex_world PENDING) ''b1'' ''alice'' CUSTOMER ''CANCELLED'')
     = JsonBooking (ex_view CANCELLED)
   \<and> map userId (notifications
        (snd (patch_status ex_env (ex_world PENDING) ''b1'' ''alice'' CUSTOMER ''CANCELLED'')))
       = [''alice'']
   \<and> providerId (ex_booking PENDING) = ''bob''"
  by (simp add: patch_status_def statusSchema_parse_def ex_world_def ex_booking_def
      ex_env_def ex_view_def ex_users_def include_relations_def Let_def
      notifyBookingStatusChange_def statusMessages_def createNotification_def emit_def
      sendEmailNotification_def or_default_def)

text \<open>
  C4, amended: for every successful transition on the status endpoint whose Ledger write
  does not throw, exactly one notification is written, it carries the booking's id and is
  addressed to the booking's customer, whoever performed the transition; the one realtime
  push (made when Socket.io is up) goes to that customer's room. So the provider's
  transitions notify the counterparty, and the customer's own cancellation notifies the
  customer.
\<close>

theorem transition_notifies_customer:
  assumes "patch_status e w bid uid urole s = (JsonBooking v, w')"
    and "fails e NotificationCreate = None"
  shows "\<exists>b n. bookings w bid = Some b
           \<and> notifications w' = notifications w @ [n]
           \<and> userId n = customerId b \<and> bookingId n = Some (bkId b)
           \<and> emitted w' = emitted w @
                (if io e
                 then [Emit (ToRoom (''user_'' @ customerId b)) ''new_notification''
                         (NotificationPayload n)]
                 else [])"
proof -
  obtain st where st: "statusSchema_parse s = Some st"
    using assms(1) unfolding patch_status_def errorHandler_def
    by (auto split: option.splits)
  have stp: "st \<noteq> PENDING"
    using st statusSchema_parse_not_PENDING [of s] by auto
  obtain b where b: "bookings w bid = Some b"
    using assms(1) st unfolding patch_status_def errorHandler_def
    by (auto split: option.splits if_splits)
  let ?b' = "b\<lparr>status := st\<rparr>"
  let ?w0 = "w\<lparr>bookings := (bookings w)(bid \<mapsto> ?b')\<rparr>"
  let ?v = "include_relations ?w0 ?b'"
  have res: "v = ?v \<and> w' = snd (notifyBookingStatusChange e ?w0 ?v st)"
    using assms(1) st b unfolding patch_status_def errorHandler_def
    by (auto simp: Let_def split: option.splits if_splits)
  have rowv: "row ?v = ?b'" by (simp add: include_relations_def)
  from notifyBookingStatusChange_result [OF assms(2) stp, of ?w0 ?v] res rowv b
  show ?thesis by auto
qed

text \<open>The amended C4 when the provider \<open>bob\<close> accepts \<open>b1\<close>: \<open>alice\<close> is notified.\<close>

theorem transition_notifies_customer_witness:
  "fails ex_env NotificationCreate = None
   \<and> (\<exists>n. notifications
             (snd (patch_status ex_env (ex_world PENDING) ''b1'' ''bob'' PROVIDER ''ACCEPTED''))
             = [n]
           \<and> userId n = ''alice'' \<and> bookingId n = Some ''b1''
           \<and> emitted
               (snd (patch_status ex_env (ex_world PENDING) ''b1'' ''bob'' PROVIDER ''ACCEPTED''))
             = [Emit (ToRoom ''user_alice'') ''new_notification'' (NotificationPayload n)])"
proof -
  have run: "patch_status ex_env (ex_world PENDING) ''b1'' ''bob'' PROVIDER ''ACCEPTED''
      = (JsonBooking (ex_view ACCEPTED),
         snd (patch_status ex_env (ex_world PENDING) ''b1'' ''bob'' PROVIDER ''ACCEPTED''))"
    by (simp add: patch_status_def statusSchema_parse_def ex_world_def ex_booking_def
        ex_env_def ex_view_def ex_users_def include_relations_def Let_def)
  have nf: "fails ex_env NotificationCreate = None" by (simp add: ex_env_def)
  from transition_notifies_customer [OF run nf] nf show ?thesis
    by (simp add: ex_world_def ex_booking_def ex_env_def)
qed

section \<open>Chat over the socket\<close>

lemma createNotification_emitted_prefix:
  "\<exists>rest. emitted (snd (createNotification e w p)) = emitted w @ rest"
  unfolding createNotification_def emit_def
  by (simp add: Let_def split: option.splits)

lemma then_email_messages:
  "messages (snd (case createNotification e w p of
                    (Threw err, w1) \<Rightarrow> (Threw err, w1)
                  | (Returned n, w1) \<Rightarrow>
                      (Returned n, snd (sendEmailNotification e w1 r ty ttl msg))))
     = messages w"
proof (cases "createNotification e w p")
  case (Pair res w1)
  have "messages w1 = messages (snd (createNotification e w p))"
    by (simp only: Pair snd_conv)
  then have "messages w1 = messages w"
    by (simp only: createNotification_messages)
  then show ?thesis
    using Pair by (cases res) simp_all
qed

lemma then_email_emitted:
  "\<exists>rest. emitted (snd (case createNotification e w p of
                    (Threw err, w1) \<Rightarrow> (Threw err, w1)
                  | (Returned n, w1) \<Rightarrow>
                      (Returned n, snd (sendEmailNotification e w1 r ty ttl msg))))
     = emitted w @ rest"
proof (cases "createNotification e w p")
  case (Pair res w1)
  have "emitted w1 = emitted (snd (createNotification e w p))"
    by (simp only: Pair snd_conv)
  then obtain rest where "emitted w1 = emitted w @ rest"
    using createNotification_emitted_prefix [of e w p] by auto
  then show ?thesis
    using Pair by (cases res) simp_all
qed

lemma notifyMessageReceived_messages:
  "messages (snd (notifyMessageReceived e w m r)) = messages w"
  unfolding notifyMessageReceived_def Let_def by (rule then_email_messages)

lemma notifyMessageReceived_emitted_prefix:
  "\<exists>rest. emitted (snd (notifyMessageReceived e w m r)) = emitted w @ rest"
  unfolding notifyMessageReceived_def Let_def by (rule then_email_emitted)

subsection \<open>What trimming does\<close>

lemma dropWhile_trim:
  "dropWhile is_space s
     = trim s @ rev (takeWhile is_space (rev (dropWhile is_space s)))"
  unfolding trim_def
  by (metis rev_append rev_rev_ident takeWhile_dropWhile_id)

lemma trim_cuts_ends:
  "\<exists>pre suf. s = pre @ trim s @ suf
      \<and> (\<forall>c\<in>set pre. is_space c) \<and> (\<forall>c\<in>set suf. is_space c)"
proof -
  let ?t = "dropWhile is_space s"
  let ?pre = "takeWhile is_space s"
  let ?suf = "rev (takeWhile is_space (rev ?t))"
  have "s = ?pre @ ?t" by simp
  also have "?t = trim s @ ?suf" by (rule dropWhile_trim)
  finally have s: "s = ?pre @ trim s @ ?suf" .
  have p: "\<forall>c\<in>set ?pre. is_space c"
    by (auto dest: set_takeWhileD)
  have q: "\<forall>c\<in>set ?suf. is_space c"
    by (auto dest: set_takeWhileD)
  from s p q show ?thesis by blast
qed

lemma trim_ends_not_space:
  assumes "trim s \<noteq> []"
  shows "\<not> is_space (hd (trim s)) \<and> \<not> is_space (last (trim s))"
proof -
  let ?t = "dropWhile is_space s"
  let ?u = "dropWhile is_space (rev ?t)"
  from assms have "rev ?u \<noteq> []" unfolding trim_def .
  then have u: "?u \<noteq> []" by (metis rev_is_Nil_conv)
  then have l: "\<not> is_space (hd ?u)" by (rule hd_dropWhile)
  have "last (trim s) = hd ?u"
    unfolding trim_def using u by (metis last_rev)
  with l have last: "\<not> is_space (last (trim s))" by simp
  have tne: "?t \<noteq> []"
  proof
    assume e: "?t = []"
    have "?u = dropWhile is_space (rev [])" by (simp only: e)
    then have "?u = []" by simp
    with u show False by blast
  qed
  then have h: "\<not> is_space (hd ?t)" by (rule hd_dropWhile)
  have "hd ?t = hd (trim s @ rev (takeWhile is_space (rev ?t)))"
    using dropWhile_trim [of s] by (rule arg_cong)
  also have "\<dots> = hd (trim s)" using assms by (rule hd_append2)
  finally have "hd ?t = hd (trim s)" .
  with h last show ?thesis by simp
qed

subsection \<open>C5: the body of a message\<close>

text \<open>
  C5 as stated fails: the handler trims the body and makes no check of the result. The
  participant \<open>alice\<close> sends a space, a no-break space and a tab on her booking
  \<open>b1\<close>: a Message row with the empty body is persisted, and that row is broadcast
  to the room \<open>booking:b1\<close>.
\<close>

theorem blank_message_is_persisted_and_broadcast:
  "trim ex_blank_body = []
   \<and> messages (send_message ex_env (ex_world ACCEPTED) (ex_socket ''alice'') ''b1'' ex_blank_body)
       = [\<lparr>mId = 0, msgBookingId = ''b1'', body = [], senderId = ''alice'', msgCreatedAt = 0\<rparr>]
   \<and> hd (emitted
         (send_message ex_env (ex_world ACCEPTED) (ex_socket ''alice'') ''b1'' ex_blank_body))
       = Emit (ToRoom ''booking:b1'') ''new_message''
           (MessagePayload
              \<lparr>mId = 0, msgBookingId = ''b1'', body = [], senderId = ''alice'', msgCreatedAt = 0\<rparr>
              (Some ''Alice''))"
  by (simp add: send_message_def trim_def is_space_def ex_blank_body_def ex_world_def
      ex_booking_def ex_env_def ex_socket_def ex_users_def Let_def emit_def
      notifyMessageReceived_def createNotification_def sendEmailNotification_def)

text \<open>
  C5, amended: for every send_message call by a participant of the booking, with the store
  answering and Socket.io up, exactly one Message row is persisted and that row is the
  next thing broadcast to the booking's room. Its body is the trimmed body: what is left
  of the body sent after white space is cut from both ends, so that it is empty or neither
  begins nor ends with white space. This holds also when the trimmed body is empty, which
  the handler does not reject.
\<close>

theorem participant_message_is_trimmed_and_sent:
  assumes "bookings w bid = Some b"
    and "customerId b = dataUserId sock \<or> providerId b = dataUserId sock"
    and "fails e BookingFindUnique = None" and "fails e MessageCreate = None" and "io e"
  shows "\<exists>m rest. messages (send_message e w sock bid bdy) = messages w @ [m]
           \<and> body m = trim bdy \<and> senderId m = dataUserId sock \<and> msgBookingId m = bid
           \<and> (\<exists>pre suf. bdy = pre @ body m @ suf
                 \<and> (\<forall>c\<in>set pre. is_space c) \<and> (\<forall>c\<in>set suf. is_space c))
           \<and> (body m = [] \<or> \<not> is_space (hd (body m)) \<and> \<not> is_space (last (body m)))
           \<and> emitted (send_message e w sock bid bdy)
               = emitted w @
                 Emit (ToRoom (''booking:'' @ bid)) ''new_message''
                   (MessagePayload m (map_option fullName (users w (dataUserId sock))))
                 # rest"
proof -
  let ?m = "\<lparr>mId = nextId w, msgBookingId = bid, body = trim bdy,
             senderId = dataUserId sock, msgCreatedAt = clock w\<rparr>"
  let ?w1 = "w\<lparr>messages := messages w @ [?m],
               nextId := Suc (nextId w), clock := Suc (clock w)\<rparr>"
  let ?w2 = "emit (ToRoom (''booking:'' @ bid)) ''new_message''
               (MessagePayload ?m (map_option fullName (users ?w1 (dataUserId sock)))) ?w1"
  let ?r = "if customerId b = dataUserId sock then providerId b else customerId b"
  have run: "send_message e w sock bid bdy = snd (notifyMessageReceived e ?w2 ?m ?r)"
    using assms unfolding send_message_def by (auto simp: Let_def)
  have msgs: "messages (send_message e w sock bid bdy) = messages w @ [?m]"
    unfolding run by (simp add: notifyMessageReceived_messages emit_def)
  obtain rest where "emitted (snd (notifyMessageReceived e ?w2 ?m ?r)) = emitted ?w2 @ rest"
    using notifyMessageReceived_emitted_prefix [of e ?w2 ?m ?r] by blast
  then have ems: "emitted (send_message e w sock bid bdy)
      = emitted w @
        Emit (ToRoom (''booking:'' @ bid)) ''new_message''
          (MessagePayload ?m (map_option fullName (users w (dataUserId sock)))) # rest"
    unfolding run by (simp add: emit_def)
  have cut: "\<exists>pre suf. bdy = pre @ body ?m @ suf
      \<and> (\<forall>c\<in>set pre. is_space c) \<and> (\<forall>c\<in>set suf. is_space c)"
    using trim_cuts_ends [of bdy] by simp
  have ends: "body ?m = [] \<or> \<not> is_space (hd (body ?m)) \<and> \<not> is_space (last (body ?m))"
    using trim_ends_not_space [of bdy] by auto
  from msgs ems cut ends show ?thesis
    by (intro exI [of _ ?m] exI [of _ rest]) simp
qed

text \<open>
  The amended C5 when the provider \<open>bob\<close> writes on \<open>b1\<close>, the text wrapped in
  ASCII and other white space: the row stored and broadcast carries \<open>on my way\<close>.
\<close>

theorem participant_message_is_trimmed_and_sent_witness:
  "bookings (ex_world ACCEPTED) ''b1'' = Some (ex_booking ACCEPTED)
   \<and> providerId (ex_booking ACCEPTED) = dataUserId (ex_socket ''bob'')
   \<and> fails ex_env BookingFindUnique = None \<and> fails ex_env MessageCreate = None \<and> io ex_env
   \<and> trim ex_body = ascii ''on my way''
   \<and> (\<exists>m rest.
         messages (send_message ex_env (ex_world ACCEPTED) (ex_socket ''bob'') ''b1'' ex_body)
           = [m]
         \<and> body m = ascii ''on my way'' \<and> senderId m = ''bob'' \<and> msgBookingId m = ''b1''
         \<and> emitted (send_message ex_env (ex_world ACCEPTED) (ex_socket ''bob'') ''b1'' ex_body)
             = Emit (ToRoom ''booking:b1'') ''new_message'' (MessagePayload m (Some ''Bob''))
               # rest)"
proof -
  have t: "trim ex_body = ascii ''on my way''"
    by (simp add: trim_def is_space_def ex_body_def ascii_def)
  have pre: "bookings (ex_world ACCEPTED) ''b1'' = Some (ex_booking ACCEPTED)"
    and prov: "customerId (ex_booking ACCEPTED) = dataUserId (ex_socket ''bob'')
               \<or> providerId (ex_booking ACCEPTED) = dataUserId (ex_socket ''bob'')"
    and f1: "fails ex_env BookingFindUnique = None"
    and f2: "fails ex_env MessageCreate = None" and up: "io ex_env"
    by (simp_all add: ex_world_def ex_booking_def ex_env_def ex_socket_def)
  obtain m rest where
    m: "messages (send_message ex_env (ex_world ACCEPTED) (ex_socket ''bob'') ''b1'' ex_body)
          = messages (ex_world ACCEPTED) @ [m]"
      "body m = trim ex_body" "senderId m = dataUserId (ex_socket ''bob'')"
      "msgBookingId m = ''b1''"
      "emitted (send_message ex_env (ex_world ACCEPTED) (ex_socket ''bob'') ''b1'' ex_body)
         = emitted (ex_world ACCEPTED) @
           Emit (ToRoom (''booking:'' @ ''b1'')) ''new_message''
             (MessagePayload m
                (map_option fullName (users (ex_world ACCEPTED) (dataUserId (ex_socket ''bob'')))))
           # rest"
    using participant_message_is_trimmed_and_sent [OF pre prov f1 f2 up, of ex_body]
    by blast
  have "messages (send_message ex_env (ex_world ACCEPTED) (ex_socket ''bob'') ''b1'' ex_body)
          = [m]"
    using m(1) by (simp add: ex_world_def)
  moreover have "body m = ascii ''on my way''" using m(2) t by simp
  moreover have "senderId m = ''bob''" using m(3) by (simp add: ex_socket_def)
  moreover have "emitted (send_message ex_env (ex_world ACCEPTED) (ex_socket ''bob'') ''b1''
        ex_body)
      = Emit (ToRoom ''booking:b1'') ''new_message'' (MessagePayload m (Some ''Bob'')) # rest"
    using m(5) by (simp add: ex_world_def ex_socket_def ex_users_def)
  ultimately show ?thesis
    using pre f1 f2 up t m(4) by (auto simp: ex_booking_def ex_socket_def)
qed

subsection \<open>C6: a sender who is no party to the booking\<close>

text \<open>
  C6: when the sender is neither the customer nor the provider of the named booking (or no
  such booking exists), whatever the store and the transports do, send_message only emits
  one \<open>error\<close> event to the sender's own socket: no Message row is persisted, no
  notification is written, and nothing goes to a room.
\<close>

theorem outsider_message_is_rejected:
  assumes "\<forall>b. bookings w bid = Some b \<longrightarrow>
             customerId b \<noteq> dataUserId sock \<and> providerId b \<noteq> dataUserId sock"
  shows "\<exists>msg. send_message e w sock bid bdy
             = w\<lparr>emitted := emitted w @
                    [Emit (ToSocket (sockId sock)) ''error'' (ErrorPayload msg)]\<rparr>
           \<and> messages (send_message e w sock bid bdy) = messages w
           \<and> notifications (send_message e w sock bid bdy) = notifications w"
  using assms unfolding send_message_def socket_error_def emit_def
  by (auto simp: Let_def split: option.splits)

text \<open>C6 for \<open>carol\<close>, who is no party to \<open>b1\<close>.\<close>

theorem outsider_message_is_rejected_witness:
  "bookings (ex_world ACCEPTED) ''b1'' = Some (ex_booking ACCEPTED)
   \<and> customerId (ex_booking ACCEPTED) \<noteq> dataUserId (ex_socket ''carol'')
   \<and> providerId (ex_booking ACCEPTED) \<noteq> dataUserId (ex_socket ''carol'')
   \<and> (\<exists>msg. send_message ex_env (ex_world ACCEPTED) (ex_socket ''carol'') ''b1'' (ascii ''hello'')
             = (ex_world ACCEPTED)\<lparr>emitted := [Emit (ToSocket 7) ''error'' (ErrorPayload msg)]\<rparr>
           \<and> messages (send_message ex_env (ex_world ACCEPTED) (ex_socket ''carol'') ''b1'' (ascii ''hello''))
               = []
           \<and> notifications
               (send_message ex_env (ex_world ACCEPTED) (ex_socket ''carol'') ''b1'' (ascii ''hello''))
               = [])"
  using outsider_message_is_rejected
          [of "ex_world ACCEPTED" "''b1''" "ex_socket ''carol''" ex_env "ascii ''hello''"]
  by (simp add: ex_world_def ex_booking_def ex_socket_def)

subsection \<open>C10: what a non-participant learns\<close>

text \<open>
  C10: with the store answering, send_message for a booking id that does not exist emits
  the error \<open>Booking not found\<close> to the sender, and for an existing booking of which the
  sender is no party the error \<open>Access denied\<close>; the two outcomes differ, and each adds
  exactly that one event. join_booking leaves the world untouched in both cases.
\<close>

theorem send_message_reveals_existence:
  "(fails e BookingFindUnique = None \<and> bookings w bid = None \<longrightarrow>
      send_message e w sock bid bdy = socket_error sock ''Booking not found'' w
      \<and> join_booking e w sock bid = w)
   \<and> (fails e BookingFindUnique = None \<and> bookings w bid' = Some b
        \<and> customerId b \<noteq> dataUserId sock \<and> providerId b \<noteq> dataUserId sock \<longrightarrow>
      send_message e w sock bid' bdy = socket_error sock ''Access denied'' w
      \<and> join_booking e w sock bid' = w)
   \<and> socket_error sock ''Booking not found'' w \<noteq> socket_error sock ''Access denied'' w
   \<and> emitted (socket_error sock msg w)
       = emitted w @ [Emit (ToSocket (sockId sock)) ''error'' (ErrorPayload msg)]"
proof -
  have "emitted (socket_error sock ''Booking not found'' w)
      \<noteq> emitted (socket_error sock ''Access denied'' w)"
    by (simp add: socket_error_def emit_def)
  then have "socket_error sock ''Booking not found'' w \<noteq> socket_error sock ''Access denied'' w"
    by metis
  then show ?thesis
    unfolding send_message_def join_booking_def
    by (auto simp: Let_def socket_error_def emit_def)
qed

text \<open>C10 for \<open>carol\<close>, the missing booking \<open>b2\<close> and the foreign booking \<open>b1\<close>.\<close>

theorem send_message_reveals_existence_witness:
  "fails ex_env BookingFindUnique = None
   \<and> bookings (ex_world ACCEPTED) ''b2'' = None
   \<and> bookings (ex_world ACCEPTED) ''b1'' = Some (ex_booking ACCEPTED)
   \<and> customerId (ex_booking ACCEPTED) \<noteq> dataUserId (ex_socket ''carol'')
   \<and> providerId (ex_booking ACCEPTED) \<noteq> dataUserId (ex_socket ''carol'')
   \<and> emitted (send_message ex_env (ex_world ACCEPTED) (ex_socket ''carol'') ''b2'' (ascii ''hello''))
       = [Emit (ToSocket 7) ''error'' (ErrorPayload ''Booking not found'')]
   \<and> emitted (send_message ex_env (ex_world ACCEPTED) (ex_socket ''carol'') ''b1'' (ascii ''hello''))
       = [Emit (ToSocket 7) ''error'' (ErrorPayload ''Access denied'')]
   \<and> join_booking ex_env (ex_world ACCEPTED) (ex_socket ''carol'') ''b2'' = ex_world ACCEPTED
   \<and> join_booking ex_env (ex_world ACCEPTED) (ex_socket ''carol'') ''b1'' = ex_world ACCEPTED"
  using send_message_reveals_existence
          [of ex_env "ex_world ACCEPTED" "''b2''" "ex_socket ''carol''" "ascii ''hello''" "''b1''"
              "ex_booking ACCEPTED"]
        send_message_reveals_existence
          [of ex_env "ex_world ACCEPTED" "''b2''" "ex_socket ''carol''" "ascii ''hello''" "''b1''"
              "ex_booking ACCEPTED" "''Booking not found''"]
        send_message_reveals_existence
          [of ex_env "ex_world ACCEPTED" "''b2''" "ex_socket ''carol''" "ascii ''hello''" "''b1''"
              "ex_booking ACCEPTED" "''Access denied''"]
  by (simp add: ex_world_def ex_booking_def ex_socket_def ex_env_def)

section \<open>The e-mail step\<close>

lemma sendEmail_upto_outbox:
  "(snd (sendEmail e w m))\<lparr>outbox := ob\<rparr> = w\<lparr>outbox := ob\<rparr>"
  unfolding sendEmail_def by (simp split: option.splits)

lemma sendEmailNotification_upto_outbox:
  "(snd (sendEmailNotification e w uid ty ttl msg))\<lparr>outbox := ob\<rparr> = w\<lparr>outbox := ob\<rparr>"
  unfolding sendEmailNotification_def
  by (simp add: Let_def sendEmail_upto_outbox split: option.splits)

lemma createNotification_with_email_setup:
  "createNotification (with_email_setup e en tr f) w p = createNotification e w p"
  unfolding createNotification_def with_email_setup_def
  by (simp add: Let_def split: option.splits)

lemma notifyBookingStatusChange_upto_outbox:
  "(snd (notifyBookingStatusChange (with_email_setup e en tr f) w v st))\<lparr>outbox := ob\<rparr>
     = (snd (notifyBookingStatusChange e w v st))\<lparr>outbox := ob\<rparr>"
proof (cases "statusMessages v st")
  case None
  then show ?thesis unfolding notifyBookingStatusChange_def by simp
next
  case (Some info)
  obtain ttl msg et nt where info: "info = (ttl, msg, et, nt)"
    by (cases info) auto
  let ?p = "\<lparr>p_userId = customerId (row v), p_type = nt, p_title = ttl, p_message = msg,
             p_link = Some ''/bookings'', p_bookingId = Some (bkId (row v)),
             p_messageId = None\<rparr>"
  obtain r w1 where cn: "createNotification e w ?p = (r, w1)"
    by (cases "createNotification e w ?p") auto
  then have cn': "createNotification (with_email_setup e en tr f) w ?p = (r, w1)"
    by (simp only: createNotification_with_email_setup)
  show ?thesis
    unfolding notifyBookingStatusChange_def
    using Some info cn cn' by (cases r) (simp_all add: sendEmailNotification_upto_outbox)
qed

lemma patch_status_with_email_setup:
  "fst (patch_status (with_email_setup e en tr f) w bid uid urole s)
     = fst (patch_status e w bid uid urole s)
   \<and> (snd (patch_status (with_email_setup e en tr f) w bid uid urole s))\<lparr>outbox := ob\<rparr>
     = (snd (patch_status e w bid uid urole s))\<lparr>outbox := ob\<rparr>"
proof -
  have f1: "fails (with_email_setup e en tr f) BookingFindUnique = fails e BookingFindUnique"
    and f2: "fails (with_email_setup e en tr f) BookingUpdate = fails e BookingUpdate"
    by (simp_all add: with_email_setup_def)
  show ?thesis
    unfolding patch_status_def f1 f2
    by (simp add: Let_def notifyBookingStatusChange_upto_outbox split: option.splits)
qed

lemma upto_outbox_fields:
  assumes "w1\<lparr>outbox := []\<rparr> = w2\<lparr>outbox := []\<rparr>"
  shows "bookings w1 = bookings w2 \<and> notifications w1 = notifications w2
    \<and> messages w1 = messages w2 \<and> emitted w1 = emitted w2"
proof -
  have "bookings (w1\<lparr>outbox := []\<rparr>) = bookings (w2\<lparr>outbox := []\<rparr>)"
    and "notifications (w1\<lparr>outbox := []\<rparr>) = notifications (w2\<lparr>outbox := []\<rparr>)"
    and "messages (w1\<lparr>outbox := []\<rparr>) = messages (w2\<lparr>outbox := []\<rparr>)"
    and "emitted (w1\<lparr>outbox := []\<rparr>) = emitted (w2\<lparr>outbox := []\<rparr>)"
    using assms by simp_all
  then show ?thesis by simp
qed

subsection \<open>C7: a failing e-mail step\<close>

text \<open>
  C7: \<open>sendEmailNotification\<close> always returns normally, whether e-mail is switched off,
  the transporter is missing, the recipient has no address, a lookup throws or the
  transporter throws, and it leaves the bookings and the notifications as they were. For
  the status endpoint as a whole: under any other e-mail set-up the response to the caller
  is the same, and so are the stored bookings, the notifications written and the realtime
  pushes.
\<close>

theorem email_failure_is_isolated:
  "fst (sendEmailNotification e w uid ty ttl msg) = Returned ()
   \<and> bookings (snd (sendEmailNotification e w uid ty ttl msg)) = bookings w
   \<and> notifications (snd (sendEmailNotification e w uid ty ttl msg)) = notifications w
   \<and> fst (patch_status (with_email_setup e en tr f) w bid actor urole s)
       = fst (patch_status e w bid actor urole s)
   \<and> bookings (snd (patch_status (with_email_setup e en tr f) w bid actor urole s))
       = bookings (snd (patch_status e w bid actor urole s))
   \<and> notifications (snd (patch_status (with_email_setup e en tr f) w bid actor urole s))
       = notifications (snd (patch_status e w bid actor urole s))
   \<and> emitted (snd (patch_status (with_email_setup e en tr f) w bid actor urole s))
       = emitted (snd (patch_status e w bid actor urole s))"
proof -
  have "(snd (patch_status (with_email_setup e en tr f) w bid actor urole s))\<lparr>outbox := []\<rparr>
     = (snd (patch_status e w bid actor urole s))\<lparr>outbox := []\<rparr>"
    using patch_status_with_email_setup [of e en tr f w bid actor urole s "[]"] by simp
  from upto_outbox_fields [OF this]
  show ?thesis
    by (simp add: sendEmailNotification_returns patch_status_with_email_setup)
qed

text \<open>
  C7 when \<open>bob\<close> accepts \<open>b1\<close> while e-mail is enabled and the transporter refuses the
  connection: the caller gets the updated booking, ACCEPTED is stored, and the
  notification for \<open>alice\<close> is in the Ledger.
\<close>

theorem email_failure_is_isolated_witness:
  "EMAIL_ENABLED (with_email_setup ex_env True True ex_smtp_down)
   \<and> transporter (with_email_setup ex_env True True ex_smtp_down)
   \<and> fails (with_email_setup ex_env True True ex_smtp_down) SendMail = Some ''connection refused''
   \<and> fst (patch_status (with_email_setup ex_env True True ex_smtp_down) (ex_world PENDING)
            ''b1'' ''bob'' PROVIDER ''ACCEPTED'')
       = JsonBooking (ex_view ACCEPTED)
   \<and> bookings (snd (patch_status (with_email_setup ex_env True True ex_smtp_down)
                      (ex_world PENDING) ''b1'' ''bob'' PROVIDER ''ACCEPTED'')) ''b1''
       = Some (ex_booking ACCEPTED)
   \<and> map userId (notifications
        (snd (patch_status (with_email_setup ex_env True True ex_smtp_down)
                (ex_world PENDING) ''b1'' ''bob'' PROVIDER ''ACCEPTED'')))
       = [''alice'']"
proof -
  have plain: "fst (patch_status ex_env (ex_world PENDING) ''b1'' ''bob'' PROVIDER ''ACCEPTED'')
        = JsonBooking (ex_view ACCEPTED)
      \<and> bookings (snd (patch_status ex_env (ex_world PENDING) ''b1'' ''bob'' PROVIDER
                         ''ACCEPTED'')) ''b1''
        = Some (ex_booking ACCEPTED)
      \<and> map userId (notifications
          (snd (patch_status ex_env (ex_world PENDING) ''b1'' ''bob'' PROVIDER ''ACCEPTED'')))
        = [''alice'']"
    by (simp add: patch_status_def statusSchema_parse_def ex_world_def ex_booking_def
        ex_env_def ex_view_def ex_users_def include_relations_def Let_def
        notifyBookingStatusChange_def statusMessages_def createNotification_def emit_def
        sendEmailNotification_def or_default_def)
  have cfg: "EMAIL_ENABLED (with_email_setup ex_env True True ex_smtp_down)
      \<and> transporter (with_email_setup ex_env True True ex_smtp_down)
      \<and> fails (with_email_setup ex_env True True ex_smtp_down) SendMail
          = Some ''connection refused''"
    by (simp add: with_email_setup_def ex_smtp_down_def)
  from email_failure_is_isolated
         [of ex_env "ex_world PENDING" "''alice''" booking_accepted "''t''" "''m''"
             True True ex_smtp_down "''b1''" "''bob''" PROVIDER "''ACCEPTED''"]
       plain cfg
  show ?thesis by simp
qed

section \<open>Listing notifications\<close>

lemma newest_first_sorted:
  "sorted_wrt (\<lambda>a b. createdAt b \<le> createdAt a) (rev (sort_key createdAt xs))"
proof -
  have "sorted (map createdAt (sort_key createdAt xs))"
    by (rule sorted_sort_key)
  then have "sorted_wrt (\<lambda>a b. createdAt a \<le> createdAt b) (sort_key createdAt xs)"
    by (simp add: sorted_wrt_map)
  then show ?thesis
    by (simp add: sorted_wrt_rev)
qed

lemma taken_are_newest:
  assumes "sorted_wrt (\<lambda>a b. createdAt b \<le> createdAt a) ys"
    and "n \<in> set ys" and "n \<notin> set (take k ys)" and "m \<in> set (take k ys)"
  shows "createdAt n \<le> createdAt (m::notification)"
proof -
  have "set ys = set (take k ys) \<union> set (drop k ys)"
    by (metis append_take_drop_id set_append)
  with assms(2,3) have nd: "n \<in> set (drop k ys)" by auto
  have "sorted_wrt (\<lambda>a b. createdAt b \<le> createdAt a) (take k ys @ drop k ys)"
    using assms(1) by simp
  then have "\<forall>x\<in>set (take k ys). \<forall>y\<in>set (drop k ys). createdAt y \<le> createdAt x"
    unfolding sorted_wrt_append by blast
  with nd assms(4) show ?thesis by blast
qed

subsection \<open>C9: the listing endpoint\<close>

text \<open>
  C9: when the store answers, the listing returns notifications of the store that all
  belong to the authenticated user (and are all unread when \<open>unreadOnly\<close> is the string
  \<open>true\<close>), ordered newest first by creation time, at most 50 of them: as many as
  match, capped at 50, and no matching notification left out is newer than one returned.
\<close>

theorem notification_listing:
  assumes "fails e NotificationFindMany = None"
  shows "\<exists>ns. get_notifications e w uid unreadOnly = JsonNotifications ns
           \<and> (\<forall>n\<in>set ns. n \<in> set (notifications w) \<and> userId n = uid
                  \<and> (unreadOnly = Some ''true'' \<longrightarrow> \<not> read n))
           \<and> sorted_wrt (\<lambda>a b. createdAt b \<le> createdAt a) ns
           \<and> length ns \<le> 50
           \<and> length ns = min 50 (length (filter
                 (\<lambda>n. userId n = uid \<and> (unreadOnly = Some ''true'' \<longrightarrow> \<not> read n))
                 (notifications w)))
           \<and> (\<forall>n\<in>set (notifications w). \<forall>m\<in>set ns.
                 userId n = uid \<and> (unreadOnly = Some ''true'' \<longrightarrow> \<not> read n) \<and> n \<notin> set ns
                 \<longrightarrow> createdAt n \<le> createdAt m)"
proof -
  let ?unread = "unreadOnly = Some ''true''"
  let ?P = "\<lambda>n. userId n = uid \<and> (if ?unread then read n = False else True)"
  let ?Q = "\<lambda>n. userId n = uid \<and> (?unread \<longrightarrow> \<not> read n)"
  let ?ys = "rev (sort_key createdAt (filter ?P (notifications w)))"
  let ?ns = "take 50 ?ys"
  have PQ: "?P = ?Q" by (rule ext) simp
  have run: "get_notifications e w uid unreadOnly = JsonNotifications ?ns"
    using assms unfolding get_notifications_def findMany_notifications_def by simp
  have setys: "set ?ys = {n \<in> set (notifications w). ?Q n}"
    unfolding PQ by (simp only: set_rev set_sort set_filter)
  have sub: "set ?ns \<subseteq> set ?ys"
    by (rule set_take_subset)
  have mem: "\<forall>n\<in>set ?ns. n \<in> set (notifications w) \<and> ?Q n"
    using sub unfolding setys by blast
  have srt_all: "sorted_wrt (\<lambda>a b. createdAt b \<le> createdAt a) ?ys"
    by (rule newest_first_sorted)
  then have srt: "sorted_wrt (\<lambda>a b. createdAt b \<le> createdAt a) ?ns"
    by (rule sorted_wrt_take)
  have len: "length ?ns = min 50 (length (filter ?Q (notifications w)))"
    unfolding PQ by (simp add: min.commute)
  then have le: "length ?ns \<le> 50" by simp
  have newest: "\<forall>n\<in>set (notifications w). \<forall>m\<in>set ?ns.
      ?Q n \<and> n \<notin> set ?ns \<longrightarrow> createdAt n \<le> createdAt m"
  proof (intro ballI impI)
    fix n m
    assume n: "n \<in> set (notifications w)" and m: "m \<in> set ?ns"
      and c: "?Q n \<and> n \<notin> set ?ns"
    from n c have "n \<in> set ?ys" unfolding setys by blast
    with taken_are_newest [OF srt_all _ _ m] c show "createdAt n \<le> createdAt m" by blast
  qed
  show ?thesis
    by (rule exI [of _ ?ns]) (use run mem srt le len newest in blast)
qed

text \<open>
  C9 on a Ledger of three rows, two of them for \<open>alice\<close>: the full listing gives her
  two rows, newest first, and the unread listing only the unread one.
\<close>

theorem notification_listing_witness:
  "fails ex_env NotificationFindMany = None
   \<and> get_notifications ex_env ((ex_world ACCEPTED)\<lparr>notifications := ex_notifications\<rparr>)
        ''alice'' None
       = JsonNotifications [ex_notifications ! 2, ex_notifications ! 0]
   \<and> get_notifications ex_env ((ex_world ACCEPTED)\<lparr>notifications := ex_notifications\<rparr>)
        ''alice'' (Some ''true'')
       = JsonNotifications [ex_notifications ! 2]"
proof -
  have nf: "fails ex_env NotificationFindMany = None" by (simp add: ex_env_def)
  have a: "get_notifications ex_env ((ex_world ACCEPTED)\<lparr>notifications := ex_notifications\<rparr>)
        ''alice'' None
       = JsonNotifications [ex_notifications ! 2, ex_notifications ! 0]"
    by (simp add: get_notifications_def findMany_notifications_def ex_env_def
        ex_notifications_def)
  have b: "get_notifications ex_env ((ex_world ACCEPTED)\<lparr>notifications := ex_notifications\<rparr>)
        ''alice'' (Some ''true'')
       = JsonNotifications [ex_notifications ! 2]"
    by (simp add: get_notifications_def findMany_notifications_def ex_env_def
        ex_notifications_def)
  from notification_listing
         [OF nf, of "(ex_world ACCEPTED)\<lparr>notifications := ex_notifications\<rparr>" "''alice''" None]
       nf a b
  show ?thesis by simp
qed

end
